theory Spec2Isabelle
  imports Complex_Main "HOL-Library.Multiset"
begin

section \<open>Data model\<close>

text \<open>
  The program (\<^verbatim>\<open>analyze.py\<close>) loads a file into a pandas DataFrame and runs one of eleven
  operations on it. A DataFrame is a row count together with an ordered list of named, typed
  columns. Four column dtypes are modelled: \<^verbatim>\<open>int64\<close> (no missing values), \<^verbatim>\<open>float64\<close>
  (a missing value is NaN, here \<open>None\<close>), \<^verbatim>\<open>bool\<close>, and \<^verbatim>\<open>object\<close> holding strings or
  missing values. Numbers are exact: a finite float is a \<open>real\<close>, so the rounding and the
  overflow of 64-bit machine arithmetic inside the numeric library are outside the model.
\<close>

datatype series =
    IntCol "int list"
  | FloatCol "real option list"
  | BoolCol "bool list"
  | ObjCol "string option list"

record dataframe =
  nrows :: nat
  cols :: "(string \<times> series) list"

text \<open>A Python float: a finite number or NaN.\<close>

datatype pyfloat = Fin real | NaN

text \<open>An exception: its class name and the text \<^verbatim>\<open>str(e)\<close> gives.\<close>

datatype exn = Exn string string

fun str_exn :: "exn \<Rightarrow> string" where
  "str_exn (Exn cls txt) = txt"

text \<open>
  The messages the program builds with its f-strings, one constructor per format string,
  with the values that are interpolated.
\<close>

datatype message =
    FileNotFound string
  | UnsupportedFileType string
  | ColumnNotFound "string option" "string list"
  | GroupColumnNotFound "string option" "string list"
  | AggregateColumnNotFound "string option" "string list"
  | ColumnsNotFound "string list"
  | InvalidFilterCondition "string option" string
  | UnknownOperation string
  | ExceptionText string

text \<open>Python values that appear in the result dictionary.\<close>

datatype pyval =
    PNone
  | PBool bool
  | PInt int
  | PFloat pyfloat
  | PStr string
  | PMsg message
  | PList "pyval list"
  | PDict "(pyval \<times> pyval) list"

text \<open>
  The keyword arguments of \<^verbatim>\<open>analyze\<close>. \<open>None\<close> is what \<^verbatim>\<open>kwargs.get\<close> returns for an
  argument that was not given. The fields are the keys \<^verbatim>\<open>column\<close>, \<^verbatim>\<open>column1\<close>, \<^verbatim>\<open>column2\<close>,
  \<^verbatim>\<open>columns\<close>, \<^verbatim>\<open>n\<close>, \<^verbatim>\<open>group_by\<close>, \<^verbatim>\<open>aggregate\<close> and \<^verbatim>\<open>condition\<close>.
\<close>

record kwargs =
  kw_column :: "string option"
  kw_column1 :: "string option"
  kw_column2 :: "string option"
  kw_columns :: "string option"
  kw_n :: "int option"
  kw_group_by :: "string option"
  kw_aggregate :: "string option"
  kw_condition :: "string option"

text \<open>
  What the file system and the pandas reader give for the path: whether it exists, its
  suffix (\<^verbatim>\<open>Path(filepath).suffix\<close>) and the table the matching reader returns.
\<close>

record source_file =
  filepath :: string
  exists :: bool
  suffix :: string
  contents :: dataframe

text \<open>
  Library calls whose result is not computed by the model are parameters:
  \<^item> \<open>query\<close>: \<^verbatim>\<open>df.query(condition)\<close>, the expression engine; it raises or returns the
    selected rows as a DataFrame;
  \<^item> \<open>memory_usage\<close>: \<^verbatim>\<open>df.memory_usage(deep=True).sum()\<close>, in bytes;
  \<^item> \<open>describe\<close>: \<^verbatim>\<open>df[col].describe().to_dict()\<close>, or \<^verbatim>\<open>df.describe().to_dict()\<close> for \<open>None\<close>;
  \<^item> \<open>groupby_sum\<close>: \<^verbatim>\<open>df.groupby(g)[a].sum().to_dict()\<close>;
  \<^item> \<open>object_sum\<close>, \<open>object_mean\<close>: \<^verbatim>\<open>float(s.sum())\<close> and \<^verbatim>\<open>float(s.mean())\<close> on a column
    of dtype object;
  \<^item> \<open>object_corr\<close>: \<^verbatim>\<open>a.corr(b)\<close> when one of the columns has dtype object.
\<close>

record library =
  query :: "dataframe \<Rightarrow> string option \<Rightarrow> exn + dataframe"
  memory_usage :: "dataframe \<Rightarrow> real"
  describe :: "dataframe \<Rightarrow> string option \<Rightarrow> exn + pyval"
  groupby_sum :: "dataframe \<Rightarrow> string \<Rightarrow> string \<Rightarrow> exn + pyval"
  object_sum :: "string option list \<Rightarrow> exn + pyfloat"
  object_mean :: "string option list \<Rightarrow> exn + pyfloat"
  object_corr :: "series \<Rightarrow> series \<Rightarrow> exn + pyfloat"

section \<open>The DataFrame operations the program calls\<close>



text \<open>\<^verbatim>\<open>list(df.columns)\<close>, \<^verbatim>\<open>df[col]\<close> and \<^verbatim>\<open>str(dtype)\<close>.\<close>

definition df_columns :: "dataframe \<Rightarrow> string list" where
  "df_columns df = map fst (cols df)"

definition getcol :: "dataframe \<Rightarrow> string \<Rightarrow> series option" where
  "getcol df name = map_of (cols df) name"

fun dtype_str :: "series \<Rightarrow> string" where
  "dtype_str (IntCol xs) = ''int64''"
| "dtype_str (FloatCol xs) = ''float64''"
| "dtype_str (BoolCol xs) = ''bool''"
| "dtype_str (ObjCol xs) = ''object''"

text \<open>The cells of a column as Python values (\<^verbatim>\<open>tolist\<close>, \<^verbatim>\<open>to_dict\<close>): a missing value is NaN.\<close>

fun cell_float :: "real option \<Rightarrow> pyval" where
  "cell_float None = PFloat NaN"
| "cell_float (Some r) = PFloat (Fin r)"

fun cell_obj :: "string option \<Rightarrow> pyval" where
  "cell_obj None = PFloat NaN"
| "cell_obj (Some s) = PStr s"

fun values_of :: "series \<Rightarrow> pyval list" where
  "values_of (IntCol xs) = map PInt xs"
| "values_of (FloatCol xs) = map cell_float xs"
| "values_of (BoolCol xs) = map PBool xs"
| "values_of (ObjCol xs) = map cell_obj xs"

text \<open>Row \<open>i\<close> as a record (\<^verbatim>\<open>to_dict(orient="records")\<close>), and the rows at a list of positions.\<close>

definition row_record :: "dataframe \<Rightarrow> nat \<Rightarrow> pyval" where
  "row_record df i = PDict (map (\<lambda>(name, s). (PStr name, values_of s ! i)) (cols df))"

definition records_at :: "dataframe \<Rightarrow> nat list \<Rightarrow> pyval" where
  "records_at df idxs = PList (map (row_record df) idxs)"

text \<open>\<^verbatim>\<open>df.head(k).to_dict(orient="records")\<close>.\<close>

definition head_records :: "nat \<Rightarrow> dataframe \<Rightarrow> pyval" where
  "head_records k df = records_at df (take k [0..<nrows df])"

subsection \<open>Numeric reductions\<close>

text \<open>
  The numeric view of a column: int64 and bool (False 0, True 1) convert to float, float64
  is taken as it is, and a column of dtype object has none.
\<close>

fun as_float :: "series \<Rightarrow> real option list option" where
  "as_float (IntCol xs) = Some (map (\<lambda>x. Some (of_int x)) xs)"
| "as_float (FloatCol xs) = Some xs"
| "as_float (BoolCol bs) = Some (map (\<lambda>b. Some (if b then 1 else 0)) bs)"
| "as_float (ObjCol xs) = None"

fun dropna :: "'a option list \<Rightarrow> 'a list" where
  "dropna [] = []"
| "dropna (None # xs) = dropna xs"
| "dropna (Some x # xs) = x # dropna xs"

text \<open>\<^verbatim>\<open>float(df[col].sum())\<close>: missing values are skipped; the sum of no values is 0.\<close>

fun pd_sum :: "library \<Rightarrow> series \<Rightarrow> exn + pyfloat" where
  "pd_sum lib (IntCol xs) = Inr (Fin (of_int (sum_list xs)))"
| "pd_sum lib (FloatCol xs) = Inr (Fin (sum_list (dropna xs)))"
| "pd_sum lib (BoolCol bs) = Inr (Fin (of_nat (length (filter (\<lambda>b. b) bs))))"
| "pd_sum lib (ObjCol xs) = object_sum lib xs"

text \<open>
  \<^verbatim>\<open>float(df[col].mean())\<close>: the sum of the values that are not missing over their count,
  and NaN when there is none.
\<close>

definition nanmean :: "real option list \<Rightarrow> pyfloat" where
  "nanmean vs =
     (let ys = dropna vs
      in if length ys = 0 then NaN else Fin (sum_list ys / of_nat (length ys)))"

fun pd_mean :: "library \<Rightarrow> series \<Rightarrow> exn + pyfloat" where
  "pd_mean lib (ObjCol xs) = object_mean lib xs"
| "pd_mean lib s = Inr (nanmean (the (as_float s)))"

subsection \<open>Ranking\<close>

text \<open>
  \<^verbatim>\<open>df.nlargest(n, col)\<close> and \<^verbatim>\<open>df.nsmallest(n, col)\<close> with the default \<^verbatim>\<open>keep="first"\<close>, as
  the library documents them: the first \<open>n\<close> rows in descending (ascending) order of the
  column, the first occurrences of equal values first, rows with a missing value last; no
  row for \<open>n\<close> below 1. \<open>order_by dir keys\<close> is that order
  of the row positions, \<open>dir\<close> negating the key for the descending order. A column that is
  not numeric raises a TypeError.
\<close>

definition present_keys :: "real option list \<Rightarrow> (nat \<times> real) list" where
  "present_keys keys =
     List.map_filter (\<lambda>(i, k). map_option (\<lambda>v. (i, v)) k) (zip [0..<length keys] keys)"

definition missing_keys :: "real option list \<Rightarrow> nat list" where
  "missing_keys keys = map fst (filter (\<lambda>(i, k). k = None) (zip [0..<length keys] keys))"

definition order_by :: "(real \<Rightarrow> real) \<Rightarrow> real option list \<Rightarrow> nat list" where
  "order_by dir keys =
     map fst (sort_key (\<lambda>(i, v). dir v) (present_keys keys)) @ missing_keys keys"

definition select_n :: "string \<Rightarrow> (real \<Rightarrow> real) \<Rightarrow> int \<Rightarrow> string \<Rightarrow> series \<Rightarrow> exn + nat list" where
  "select_n method dir k name s =
     (case as_float s of
        None \<Rightarrow> Inl (Exn ''TypeError''
                 (''Column '' @ [CHR 0x27] @ name @ [CHR 0x27] @ '' has dtype '' @ dtype_str s
                  @ '', cannot use method '' @ [CHR 0x27] @ method @ [CHR 0x27]
                  @ '' with this dtype''))
      | Some keys \<Rightarrow> Inr (take (nat k) (order_by dir keys)))"

definition nlargest :: "int \<Rightarrow> string \<Rightarrow> series \<Rightarrow> exn + nat list" where
  "nlargest = select_n ''nlargest'' (\<lambda>v. - v)"

definition nsmallest :: "int \<Rightarrow> string \<Rightarrow> series \<Rightarrow> exn + nat list" where
  "nsmallest = select_n ''nsmallest'' (\<lambda>v. v)"

subsection \<open>Distinct values and duplicated rows\<close>

text \<open>
  \<^verbatim>\<open>df[col].unique().tolist()\<close>: one pass over the column that keeps a value the first time
  it is met. \<open>seen\<close> holds the values met so far.
\<close>

primrec uniq_from :: "'a list \<Rightarrow> 'a list \<Rightarrow> 'a list" where
  "uniq_from seen [] = []"
| "uniq_from seen (x # xs) =
     (if x \<in> set seen then uniq_from seen xs else x # uniq_from (x # seen) xs)"

definition unique_vals :: "series \<Rightarrow> pyval list" where
  "unique_vals s = uniq_from [] (values_of s)"

text \<open>
  \<^verbatim>\<open>df.duplicated(subset=subset, keep=False)\<close>: the mask of the rows whose values in the
  subset's columns (all columns for \<open>None\<close>) occur in more than one row.
\<close>

definition row_key :: "dataframe \<Rightarrow> string list \<Rightarrow> nat \<Rightarrow> pyval list" where
  "row_key df names i =
     map (\<lambda>name. case getcol df name of None \<Rightarrow> PNone | Some s \<Rightarrow> values_of s ! i) names"

definition duplicated :: "dataframe \<Rightarrow> string list option \<Rightarrow> bool list" where
  "duplicated df sub =
     (let names = (case sub of None \<Rightarrow> df_columns df | Some S \<Rightarrow> S);
          keys = map (row_key df names) [0..<nrows df]
      in map (\<lambda>k. 1 < count_list keys k) keys)"

text \<open>\<^verbatim>\<open>df[mask]\<close>: the positions of the rows the mask selects.\<close>

definition mask_rows :: "bool list \<Rightarrow> nat list" where
  "mask_rows m = map fst (filter snd (zip [0..<length m] m))"

subsection \<open>Correlation\<close>

text \<open>
  \<^verbatim>\<open>a.corr(b)\<close>: Pearson's coefficient over the rows where both values are present; NaN
  when one of the two variances is zero (which covers fewer than two such rows).
\<close>

fun both_present :: "real option \<times> real option \<Rightarrow> (real \<times> real) option" where
  "both_present (Some x, Some y) = Some (x, y)"
| "both_present (x, y) = None"

definition pairs :: "real option list \<Rightarrow> real option list \<Rightarrow> (real \<times> real) list" where
  "pairs xs ys = List.map_filter both_present (zip xs ys)"

definition mean_of :: "real list \<Rightarrow> real" where
  "mean_of xs = sum_list xs / of_nat (length xs)"

definition pearson :: "(real \<times> real) list \<Rightarrow> pyfloat" where
  "pearson ps =
     (let mx = mean_of (map fst ps);
          my = mean_of (map snd ps);
          sxy = sum_list (map (\<lambda>(x, y). (x - mx) * (y - my)) ps);
          sxx = sum_list (map (\<lambda>(x, y). (x - mx) * (x - mx)) ps);
          syy = sum_list (map (\<lambda>(x, y). (y - my) * (y - my)) ps)
      in if sxx = 0 \<or> syy = 0 then NaN else Fin (sxy / (sqrt sxx * sqrt syy)))"

definition pd_corr :: "library \<Rightarrow> series \<Rightarrow> series \<Rightarrow> exn + pyfloat" where
  "pd_corr lib a b =
     (case (as_float a, as_float b) of
        (Some xs, Some ys) \<Rightarrow> Inr (pearson (pairs xs ys))
      | _ \<Rightarrow> object_corr lib a b)"

section \<open>The program\<close>

subsection \<open>Python helpers\<close>

text \<open>
  \<^verbatim>\<open>str.strip()\<close>, \<^verbatim>\<open>str.split(",")\<close> and \<^verbatim>\<open>str.lower()\<close> on ASCII text: the white space is the
  characters 9 to 13, 28 to 31 and the blank.
\<close>

definition is_space :: "char \<Rightarrow> bool" where
  "is_space c \<longleftrightarrow> (of_char c :: nat) \<in> {9, 10, 11, 12, 13, 28, 29, 30, 31, 32}"

definition strip :: "string \<Rightarrow> string" where
  "strip s = rev (dropWhile is_space (rev (dropWhile is_space s)))"

fun split_comma :: "string \<Rightarrow> string list" where
  "split_comma [] = [[]]"
| "split_comma (c # cs) =
     (if c = CHR '','' then [] # split_comma cs
      else (case split_comma cs of [] \<Rightarrow> [[c]] | w # ws \<Rightarrow> (c # w) # ws))"

definition lower_char :: "char \<Rightarrow> char" where
  "lower_char c =
     (let k = (of_char c :: nat) in if 65 \<le> k \<and> k \<le> 90 then char_of (k + 32) else c)"

definition lower :: "string \<Rightarrow> string" where
  "lower s = map lower_char s"

text \<open>\<^verbatim>\<open>round(x, 2)\<close>: to two decimals, a tie to the even neighbour.\<close>

definition py_round2 :: "real \<Rightarrow> real" where
  "py_round2 x =
     (let y = x * 100; f = \<lfloor>y\<rfloor>; d = y - of_int f
      in (if d < 1 / 2 then of_int f
          else if 1 / 2 < d then of_int (f + 1)
          else if even f then of_int f else of_int (f + 1)) / 100)"

text \<open>\<^verbatim>\<open>a / b\<close> on numbers: a zero divisor raises ZeroDivisionError.\<close>

definition truediv :: "real \<Rightarrow> real \<Rightarrow> exn + real" where
  "truediv a b =
     (if b = 0 then Inl (Exn ''ZeroDivisionError'' ''division by zero'') else Inr (a / b))"

text \<open>The truth value of an optional string: \<^verbatim>\<open>None\<close> and the empty string are false.\<close>

fun truthy :: "string option \<Rightarrow> bool" where
  "truthy None = False"
| "truthy (Some s) = (s \<noteq> [])"

text \<open>\<^verbatim>\<open>col in df.columns\<close> and \<^verbatim>\<open>df[col]\<close> for an optional name: \<^verbatim>\<open>None\<close> is no column.\<close>

fun lookup :: "dataframe \<Rightarrow> string option \<Rightarrow> series option" where
  "lookup df None = None"
| "lookup df (Some c) = getcol df c"

subsection \<open>The branches of \<^verbatim>\<open>analyze\<close>\<close>

text \<open>
  How a branch of the \<^verbatim>\<open>try\<close> block ends: with \<^verbatim>\<open>return {"error": ...}\<close>, with an exception
  that reaches \<^verbatim>\<open>except Exception\<close>, or by storing the payload in \<^verbatim>\<open>results["result"]\<close>.
\<close>

datatype flow = Return message | Raise exn | Result pyval

definition finish :: "exn + pyval \<Rightarrow> flow" where
  "finish r = (case r of Inl e \<Rightarrow> Raise e | Inr v \<Rightarrow> Result v)"

definition op_info :: "library \<Rightarrow> dataframe \<Rightarrow> flow" where
  "op_info lib df = Result (PDict
     [(PStr ''shape'', PList [PInt (int (nrows df)), PInt (int (length (cols df)))]),
      (PStr ''memory_mb'', PFloat (Fin (py_round2 (memory_usage lib df / 1024 / 1024)))),
      (PStr ''null_counts'',
         PDict (map (\<lambda>(name, s). (PStr name,
                  PInt (int (length (filter (\<lambda>v. v = PFloat NaN) (values_of s)))))) (cols df))),
      (PStr ''sample'', head_records 3 df)])"

definition get_n :: "kwargs \<Rightarrow> int" where
  "get_n kw = (case kw_n kw of None \<Rightarrow> 10 | Some k \<Rightarrow> k)"

definition op_top_n :: "dataframe \<Rightarrow> kwargs \<Rightarrow> flow" where
  "op_top_n df kw =
     (case lookup df (kw_column kw) of
        None \<Rightarrow> Return (ColumnNotFound (kw_column kw) (df_columns df))
      | Some s \<Rightarrow>
          (case nlargest (get_n kw) (the (kw_column kw)) s of
             Inl e \<Rightarrow> Raise e
           | Inr idxs \<Rightarrow> Result (records_at df idxs)))"

definition op_bottom_n :: "dataframe \<Rightarrow> kwargs \<Rightarrow> flow" where
  "op_bottom_n df kw =
     (case lookup df (kw_column kw) of
        None \<Rightarrow> Return (ColumnNotFound (kw_column kw) (df_columns df))
      | Some s \<Rightarrow>
          (case nsmallest (get_n kw) (the (kw_column kw)) s of
             Inl e \<Rightarrow> Raise e
           | Inr idxs \<Rightarrow> Result (records_at df idxs)))"

definition op_sum :: "library \<Rightarrow> dataframe \<Rightarrow> kwargs \<Rightarrow> flow" where
  "op_sum lib df kw =
     (case lookup df (kw_column kw) of
        None \<Rightarrow> Return (ColumnNotFound (kw_column kw) (df_columns df))
      | Some s \<Rightarrow> finish (map_sum id PFloat (pd_sum lib s)))"

definition op_mean :: "library \<Rightarrow> dataframe \<Rightarrow> kwargs \<Rightarrow> flow" where
  "op_mean lib df kw =
     (case lookup df (kw_column kw) of
        None \<Rightarrow> Return (ColumnNotFound (kw_column kw) (df_columns df))
      | Some s \<Rightarrow> finish (map_sum id PFloat (pd_mean lib s)))"

definition op_stats :: "library \<Rightarrow> dataframe \<Rightarrow> kwargs \<Rightarrow> flow" where
  "op_stats lib df kw =
     (if truthy (kw_column kw) then
        (case lookup df (kw_column kw) of
           None \<Rightarrow> Return (ColumnNotFound (kw_column kw) (df_columns df))
         | Some s \<Rightarrow> finish (describe lib df (kw_column kw)))
      else finish (describe lib df None))"

definition op_group_by :: "library \<Rightarrow> dataframe \<Rightarrow> kwargs \<Rightarrow> flow" where
  "op_group_by lib df kw =
     (if lookup df (kw_group_by kw) = None then
        Return (GroupColumnNotFound (kw_group_by kw) (df_columns df))
      else if lookup df (kw_aggregate kw) = None then
        Return (AggregateColumnNotFound (kw_aggregate kw) (df_columns df))
      else finish (groupby_sum lib df (the (kw_group_by kw)) (the (kw_aggregate kw))))"

text \<open>
  The body of the inner \<^verbatim>\<open>try\<close> of the filter branch: the query, then the dictionary whose
  entries are evaluated in order, the percentage before the sample.
\<close>

definition filter_body :: "library \<Rightarrow> dataframe \<Rightarrow> string option \<Rightarrow> exn + pyval" where
  "filter_body lib df cond =
     (case query lib df cond of
        Inl e \<Rightarrow> Inl e
      | Inr filtered \<Rightarrow>
          (case truediv (of_nat (nrows filtered)) (of_nat (nrows df)) of
             Inl e \<Rightarrow> Inl e
           | Inr q \<Rightarrow> Inr (PDict
               [(PStr ''matching_rows'', PInt (int (nrows filtered))),
                (PStr ''total_rows'', PInt (int (nrows df))),
                (PStr ''percentage'', PFloat (Fin (py_round2 (q * 100)))),
                (PStr ''sample'', head_records 5 filtered)])))"

definition op_filter :: "library \<Rightarrow> dataframe \<Rightarrow> kwargs \<Rightarrow> flow" where
  "op_filter lib df kw =
     (case filter_body lib df (kw_condition kw) of
        Inl e \<Rightarrow> Return (InvalidFilterCondition (kw_condition kw) (str_exn e))
      | Inr v \<Rightarrow> Result v)"

definition op_unique :: "dataframe \<Rightarrow> kwargs \<Rightarrow> flow" where
  "op_unique df kw =
     (case lookup df (kw_column kw) of
        None \<Rightarrow> Return (ColumnNotFound (kw_column kw) (df_columns df))
      | Some s \<Rightarrow>
          (let unique_vals = unique_vals s
           in Result (PDict
                [(PStr ''unique_count'', PInt (int (length unique_vals))),
                 (PStr ''values'',
                    PList (if 100 < length unique_vals then take 100 unique_vals
                           else unique_vals))])))"

text \<open>
  The subset of the duplicates branch: \<^verbatim>\<open>None\<close> when \<^verbatim>\<open>columns\<close> is missing or empty,
  otherwise its comma-separated parts, stripped.
\<close>

definition parse_subset :: "kwargs \<Rightarrow> string list option" where
  "parse_subset kw =
     (if truthy (kw_columns kw) then Some (map strip (split_comma (the (kw_columns kw))))
      else None)"

definition op_duplicates :: "dataframe \<Rightarrow> kwargs \<Rightarrow> flow" where
  "op_duplicates df kw =
     (let sub = parse_subset kw
      in case find (\<lambda>col. getcol df col = None) (case sub of None \<Rightarrow> [] | Some S \<Rightarrow> S) of
           Some col \<Rightarrow> Return (ColumnNotFound (Some col) (df_columns df))
         | None \<Rightarrow>
             (let dupes = mask_rows (duplicated df sub)
              in Result (PDict
                   [(PStr ''duplicate_rows'', PInt (int (length dupes))),
                    (PStr ''sample'', records_at df (take 10 dupes))])))"

text \<open>The chain of comparisons on the coefficient; every comparison with NaN is false.\<close>

fun interpretation_of :: "pyfloat \<Rightarrow> string" where
  "interpretation_of NaN = ''moderate''"
| "interpretation_of (Fin corr) =
     (if corr > 7 / 10 then ''strong positive''
      else if corr < - (7 / 10) then ''strong negative''
      else if \<bar>corr\<bar> < 3 / 10 then ''weak''
      else ''moderate'')"

definition op_correlate :: "library \<Rightarrow> dataframe \<Rightarrow> kwargs \<Rightarrow> flow" where
  "op_correlate lib df kw =
     (case (lookup df (kw_column1 kw), lookup df (kw_column2 kw)) of
        (Some a, Some b) \<Rightarrow>
          (case pd_corr lib a b of
             Inl e \<Rightarrow> Raise e
           | Inr corr \<Rightarrow> Result (PDict
               [(PStr ''correlation'', PFloat corr),
                (PStr ''interpretation'', PStr (interpretation_of corr))]))
      | _ \<Rightarrow> Return (ColumnsNotFound (df_columns df)))"

definition execute :: "library \<Rightarrow> dataframe \<Rightarrow> string \<Rightarrow> kwargs \<Rightarrow> flow" where
  "execute lib df operation kw =
     (if operation = ''info'' then op_info lib df
      else if operation = ''top_n'' then op_top_n df kw
      else if operation = ''bottom_n'' then op_bottom_n df kw
      else if operation = ''sum'' then op_sum lib df kw
      else if operation = ''mean'' then op_mean lib df kw
      else if operation = ''stats'' then op_stats lib df kw
      else if operation = ''group_by'' then op_group_by lib df kw
      else if operation = ''filter'' then op_filter lib df kw
      else if operation = ''unique'' then op_unique df kw
      else if operation = ''duplicates'' then op_duplicates df kw
      else if operation = ''correlate'' then op_correlate lib df kw
      else Return (UnknownOperation operation))"

subsection \<open>\<^verbatim>\<open>analyze\<close> and \<^verbatim>\<open>main\<close>\<close>

text \<open>The result is a Python dictionary with string keys, in insertion order.\<close>

type_synonym result = "(string \<times> pyval) list"

definition error_result :: "message \<Rightarrow> result" where
  "error_result m = [(''error'', PMsg m)]"

definition results :: "source_file \<Rightarrow> dataframe \<Rightarrow> string \<Rightarrow> pyval \<Rightarrow> result" where
  "results src df operation payload =
     [(''file'', PStr (filepath src)),
      (''rows'', PInt (int (nrows df))),
      (''columns'', PList (map PStr (df_columns df))),
      (''dtypes'', PDict (map (\<lambda>(name, s). (PStr name, PStr (dtype_str s))) (cols df))),
      (''operation'', PStr operation),
      (''result'', payload)]"

definition analyze :: "library \<Rightarrow> source_file \<Rightarrow> string \<Rightarrow> kwargs \<Rightarrow> result" where
  "analyze lib src operation kw =
     (if \<not> exists src then error_result (FileNotFound (filepath src))
      else if lower (suffix src) \<notin> {''.csv'', ''.xlsx'', ''.xls'', ''.json''} then
        error_result (UnsupportedFileType (suffix src))
      else
        (let df = contents src
         in case execute lib df operation kw of
              Return m \<Rightarrow> error_result m
            | Raise e \<Rightarrow> error_result (ExceptionText (str_exn e))
            | Result payload \<Rightarrow> results src df operation payload))"



section \<open>Example inputs\<close>


definition empty_df :: dataframe where
  "empty_df = \<lparr>nrows = 0, cols = [(''price'', ObjCol [])]\<rparr>"

definition csv_file :: "dataframe \<Rightarrow> source_file" where
  "csv_file df = \<lparr>filepath = ''data.csv'', exists = True, suffix = ''.csv'', contents = df\<rparr>"

definition no_args :: kwargs where
  "no_args = \<lparr>kw_column = None, kw_column1 = None, kw_column2 = None, kw_columns = None,
     kw_n = Some 10, kw_group_by = None, kw_aggregate = None, kw_condition = None\<rparr>"

definition unsupported :: exn where
  "unsupported = Exn ''NotImplementedError'' ''outside the model''"

definition lib_with :: "(dataframe \<Rightarrow> string option \<Rightarrow> exn + dataframe) \<Rightarrow> library" where
  "lib_with q = \<lparr>query = q, memory_usage = (\<lambda>df. 0),
     describe = (\<lambda>df col. Inl unsupported), groupby_sum = (\<lambda>df g a. Inl unsupported),
     object_sum = (\<lambda>xs. Inl unsupported), object_mean = (\<lambda>xs. Inl unsupported),
     object_corr = (\<lambda>a b. Inl unsupported)\<rparr>"



text \<open>The expression engine on a condition that every row satisfies.\<close>

definition query_all :: "dataframe \<Rightarrow> string option \<Rightarrow> exn + dataframe" where
  "query_all df cond = Inr df"

text \<open>The file exists and its suffix is one of the supported ones, so the table is loaded.\<close>

definition loaded :: "source_file \<Rightarrow> bool" where
  "loaded src \<longleftrightarrow> exists src \<and> lower (suffix src) \<in> {''.csv'', ''.xlsx'', ''.xls'', ''.json''}"


section \<open>Notions of the specification\<close>





section \<open>Properties\<close>

subsection \<open>Loading and dispatch\<close>

lemma loaded_csv: "loaded (csv_file df)"
  by (simp add: loaded_def csv_file_def lower_def lower_char_def)

lemma analyze_loaded:
  "loaded src \<Longrightarrow> analyze lib src operation kw =
     (case execute lib (contents src) operation kw of
        Return m \<Rightarrow> error_result m
      | Raise e \<Rightarrow> error_result (ExceptionText (str_exn e))
      | Result payload \<Rightarrow> results src (contents src) operation payload)"
  by (simp add: analyze_def loaded_def Let_def)

lemma execute_filter: "execute lib df ''filter'' kw = op_filter lib df kw"
  by (simp add: execute_def)

subsection \<open>Filter on a table without rows\<close>

text \<open>
  C10. On a loaded table with zero rows the filter operation returns an error, never a
  success result: whatever the query gives, the result is the invalid-filter-condition
  message, and when the query itself succeeds the text in it is that of the division of the
  matching count by the row count, which fails.
\<close>

theorem filter_zero_rows:
  assumes "loaded src" and "nrows (contents src) = 0"
  shows "analyze lib src ''filter'' kw =
           error_result (InvalidFilterCondition (kw_condition kw)
             (case query lib (contents src) (kw_condition kw) of
                Inl e \<Rightarrow> str_exn e
              | Inr filtered \<Rightarrow> ''division by zero''))"
  using assms
  by (simp add: analyze_loaded execute_filter op_filter_def filter_body_def truediv_def
      split: sum.splits)

theorem filter_zero_rows_witness:
  "loaded (csv_file empty_df) \<and> nrows (contents (csv_file empty_df)) = 0 \<and>
   analyze (lib_with query_all) (csv_file empty_df) ''filter''
       (no_args\<lparr>kw_condition := Some ''price > 100''\<rparr>) =
     [(''error'', PMsg (InvalidFilterCondition (Some ''price > 100'') ''division by zero''))]"
proof -
  have a: "loaded (csv_file empty_df)"
    by (rule loaded_csv)
  have b: "nrows (contents (csv_file empty_df)) = 0"
    by (simp add: csv_file_def empty_df_def)
  have c: "analyze (lib_with query_all) (csv_file empty_df) ''filter''
       (no_args\<lparr>kw_condition := Some ''price > 100''\<rparr>) =
     [(''error'', PMsg (InvalidFilterCondition (Some ''price > 100'') ''division by zero''))]"
    using filter_zero_rows [OF a b, of "lib_with query_all"
        "no_args\<lparr>kw_condition := Some ''price > 100''\<rparr>"]
    by (simp add: lib_with_def query_all_def error_result_def)
  from a b c show ?thesis by blast
qed

subsection \<open>Filter on a condition that names a missing column\<close>




subsection \<open>Failures\<close>








subsection \<open>Distinct values\<close>












text \<open>The count is not capped: a column of 150 distinct values.\<close>

lemma uniq_from_distinct:
  "distinct xs \<Longrightarrow> set xs \<inter> set seen = {} \<Longrightarrow> uniq_from seen xs = xs"
  by (induction xs arbitrary: seen) auto

lemma unique_count_exceeds_cap:
  "op_unique \<lparr>nrows = 150, cols = [(''k'', IntCol (map int [0..<150]))]\<rparr>
       (no_args\<lparr>kw_column := Some ''k''\<rparr>) =
     Result (PDict [(PStr ''unique_count'', PInt 150),
                    (PStr ''values'', PList (map PInt (map int [0..<100])))])"
proof -
  have "distinct (map PInt (map int [0..<150]))"
    by (simp add: distinct_map inj_on_def)
  then have "uniq_from [] (map PInt (map int [0..<150])) = map PInt (map int [0..<150])"
    by (rule uniq_from_distinct) simp
  then show ?thesis
    by (simp add: op_unique_def getcol_def unique_vals_def take_map del: upt_Suc)
qed

subsection \<open>Duplicated rows\<close>













subsection \<open>Sum and mean\<close>












subsection \<open>Non-finite values in the output\<close>





subsection \<open>Numeric reducers on columns that are not numeric\<close>






subsection \<open>Correlation\<close>














subsection \<open>Ranking\<close>
















text \<open>Ties and missing values: equal keys keep their row order, missing keys come last.\<close>

lemma order_by_example:
  "order_by (\<lambda>v. - v) [Some 1, None, Some 3, Some 1, Some 3] = [2, 4, 0, 3, 1]"
  "order_by (\<lambda>v. v) [Some 1, None, Some 3, Some 1, Some 3] = [0, 3, 2, 4, 1]"
  by (simp_all add: order_by_def present_keys_def missing_keys_def upt_rec)





end
